theory Spec2Isabelle
  imports Complex_Main "HOL-Library.Sublist"
begin

section \<open>Python values, errors and flags\<close>

text \<open>
  The program is \<^verbatim>\<open>models/experimental/resnet_float16/resnet_main.py\<close>. Python
  exceptions are values of \<open>py_error\<close>; Python integers are \<open>int\<close> (unbounded, and
  \<open>div\<close> on \<open>int\<close> is floor division, as \<^verbatim>\<open>//\<close> is); Python and tensor floats are
  idealised as \<open>real\<close>.
\<close>

datatype py_error =
    RuntimeError string
  | KeyError string
  | ZeroDivisionError
  | TypeError
  | ValueError

text \<open>The flags the program reads (\<^verbatim>\<open>FLAGS\<close> is global in the source; here it is passed).\<close>

record flags =
  use_tpu :: bool
  gcp_project :: "string option"
  tpu_zone :: "string option"
  tpu_name :: "string option"
  master :: "string option"
  data_dir :: "string option"
  model_dir :: "string option"
  resnet_depth :: int
  train_batch_size :: int
  eval_batch_size :: int
  num_parallel_calls :: int
  data_format :: string

definition LABEL_CLASSES :: int where
  "LABEL_CLASSES = 1000"

definition NUM_TRAIN_IMAGES :: int where
  "NUM_TRAIN_IMAGES = 1281167"

definition NUM_EVAL_IMAGES :: int where
  "NUM_EVAL_IMAGES = 50000"

definition BASE_LEARNING_RATE :: real where
  "BASE_LEARNING_RATE = 1 / 10"

definition MOMENTUM :: real where
  "MOMENTUM = 9 / 10"

definition WEIGHT_DECAY :: real where
  "WEIGHT_DECAY = 1 / 10000"

definition LR_SCHEDULE :: "(real \<times> int) list" where
  "LR_SCHEDULE = [(1, 5), (1 / 10, 30), (1 / 100, 60), (1 / 1000, 80)]"

section \<open>The learning rate schedule\<close>

text \<open>\<^verbatim>\<open>scaled_lr = BASE_LEARNING_RATE * (FLAGS.train_batch_size / 256.0)\<close>\<close>

definition scaled_lr :: "flags \<Rightarrow> real" where
  "scaled_lr FLAGS = BASE_LEARNING_RATE * (of_int (train_batch_size FLAGS) / 256)"

text \<open>
  The \<^verbatim>\<open>for mult, start_epoch in LR_SCHEDULE\<close> loop; each round is
  \<^verbatim>\<open>decay_rate = tf.where(current_epoch < start_epoch, decay_rate, scaled_lr * mult)\<close>.
\<close>

fun lr_loop :: "real \<Rightarrow> real \<Rightarrow> (real \<times> int) list \<Rightarrow> real \<Rightarrow> real" where
  "lr_loop slr current_epoch [] decay_rate = decay_rate"
| "lr_loop slr current_epoch ((mult, start_epoch) # rest) decay_rate =
     lr_loop slr current_epoch rest
       (if current_epoch < of_int start_epoch then decay_rate else slr * mult)"

definition learning_rate_schedule :: "flags \<Rightarrow> real \<Rightarrow> real" where
  "learning_rate_schedule FLAGS current_epoch =
     (let decay_rate = scaled_lr FLAGS * fst (LR_SCHEDULE ! 0) * current_epoch
                         / of_int (snd (LR_SCHEDULE ! 0))
      in lr_loop (scaled_lr FLAGS) current_epoch LR_SCHEDULE decay_rate)"


section \<open>The custom getter\<close>

datatype dtype = bfloat16 | float16 | float32 | float64 | int32 | int64

text \<open>A keyword argument of a variable request: a dtype, or anything else.\<close>

datatype kwarg = DType dtype | Other string

text \<open>
  What the getter hands back: the variable the wrapped getter made, or
  \<^verbatim>\<open>tf.cast(var, d)\<close> of it, a tensor of dtype \<open>d\<close> that is no longer a variable.
\<close>

datatype 'v getter_value = Variable 'v | CastTo 'v dtype

text \<open>
  \<^verbatim>\<open>inner_custom_getter(getter, *args, **kwargs)\<close>. The wrapped \<open>getter\<close> is the
  framework's; \<^verbatim>\<open>kwargs['dtype']\<close> raises KeyError when the key is absent.
\<close>

definition inner_custom_getter ::
  "('a \<Rightarrow> (string \<rightharpoonup> kwarg) \<Rightarrow> 'v) \<Rightarrow> 'a \<Rightarrow> (string \<rightharpoonup> kwarg) \<Rightarrow> py_error + 'v getter_value" where
  "inner_custom_getter getter args kwargs =
     (case kwargs ''dtype'' of
        None \<Rightarrow> Inl (KeyError ''dtype'')
      | Some requested_dtype \<Rightarrow>
          (let (kwargs', cast_to_bfloat16) =
                 (if requested_dtype = DType bfloat16
                  then (kwargs(''dtype'' \<mapsto> DType float32), True)
                  else (kwargs, False));
               var = getter args kwargs'
           in Inr (if cast_to_bfloat16 then CastTo var float32 else Variable var)))"

text \<open>The dtype of what the getter returned, given the dtype of a variable.\<close>

fun value_dtype :: "('v \<Rightarrow> dtype) \<Rightarrow> 'v getter_value \<Rightarrow> dtype" where
  "value_dtype var_dtype (Variable v) = var_dtype v"
| "value_dtype var_dtype (CastTo v d) = d"

section \<open>The model function\<close>

text \<open>
  \<^verbatim>\<open>resnet_model_fn\<close> builds a graph: the tensors it builds are symbolic terms. The
  forward pass of \<^verbatim>\<open>resnet_model.resnet_v1\<close> is a collaborator, so it is a node of its
  own (depth, number of classes, data format, inputs, is_training).
\<close>

datatype tensor =
    Input string
  | Transpose tensor "nat list"
  | Network int int string tensor bool
  | Cast tensor dtype
  | ArgMax tensor nat
  | Softmax tensor
  | OneHot tensor int

datatype features = Tensor tensor | Dict "string \<rightharpoonup> tensor"

text \<open>A trainable variable: its name and its (flattened) value.\<close>

record variable =
  var_name :: string
  var_value :: "real list"

text \<open>
  What the function reads from the graph it builds into:
  \<^verbatim>\<open>tf.trainable_variables()\<close>, the value of \<^verbatim>\<open>tf.train.get_global_step()\<close>,
  the value \<^verbatim>\<open>tf.losses.softmax_cross_entropy\<close> computes for given logits and one-hot
  labels, and the \<^verbatim>\<open>UPDATE_OPS\<close> collection.
\<close>

record graph =
  trainable_variables :: "variable list"
  get_global_step :: int
  softmax_cross_entropy :: "tensor \<Rightarrow> tensor \<Rightarrow> real"
  update_ops :: "string list"

text \<open>\<^verbatim>\<open>tf.estimator.ModeKeys\<close>\<close>

definition TRAIN :: string where
  "TRAIN = ''train''"

definition EVAL :: string where
  "EVAL = ''eval''"

definition PREDICT :: string where
  "PREDICT = ''infer''"

datatype optimizer =
    MomentumOptimizer real real bool
  | TowerOptimizer optimizer

datatype operation =
    Minimize optimizer real int
  | Group operation "string list"

datatype metric = Accuracy tensor tensor

text \<open>\<^verbatim>\<open>tf.estimator.EstimatorSpec\<close>, with the fields the function sets.\<close>

record estimator_spec =
  spec_mode :: string
  spec_predictions :: "string \<rightharpoonup> tensor"
  spec_export_outputs :: "(string \<rightharpoonup> (string \<rightharpoonup> tensor)) option"
  spec_loss :: "real option"
  spec_train_op :: "operation option"
  spec_eval_metric_ops :: "(string \<rightharpoonup> metric) option"

text \<open>\<^verbatim>\<open>tf.nn.l2_loss(t)\<close> is \<open>sum (t ** 2) / 2\<close>.\<close>

definition l2_loss :: "real list \<Rightarrow> real" where
  "l2_loss t = sum_list (map (\<lambda>x. x * x) t) / 2"

text \<open>\<^verbatim>\<open>tf.add_n\<close> raises ValueError on an empty list.\<close>

definition add_n :: "real list \<Rightarrow> py_error + real" where
  "add_n inputs = (if inputs = [] then Inl ValueError else Inr (sum_list inputs))"

text \<open>
  \<^verbatim>\<open>[... for v in tf.trainable_variables() if 'batch_normalization' not in v.name]\<close>:
  the test is a substring test on the variable's name.
\<close>

definition decayed_variables :: "variable list \<Rightarrow> variable list" where
  "decayed_variables vs = filter (\<lambda>v. \<not> sublist ''batch_normalization'' (var_name v)) vs"

text \<open>
  \<^verbatim>\<open>WEIGHT_DECAY * tf.add_n([tf.nn.l2_loss(v) for v in ... if ...])\<close>,
  the term added to the cross entropy.
\<close>

definition weight_decay_term :: "variable list \<Rightarrow> py_error + real" where
  "weight_decay_term vs =
     (case add_n (map (\<lambda>v. l2_loss (var_value v)) (decayed_variables vs)) of
        Inl e \<Rightarrow> Inl e
      | Inr s \<Rightarrow> Inr (WEIGHT_DECAY * s))"

text \<open>
  The \<^verbatim>\<open>if mode == TRAIN: ... else: train_op = None\<close> block.
  \<^verbatim>\<open>NUM_TRAIN_IMAGES / FLAGS.train_batch_size\<close> is true division and raises
  ZeroDivisionError for a batch size of 0.
\<close>

definition make_train_op :: "graph \<Rightarrow> flags \<Rightarrow> string \<Rightarrow> real \<Rightarrow> py_error + operation option" where
  "make_train_op g FLAGS mode loss =
     (if mode = TRAIN then
        (if train_batch_size FLAGS = 0 then Inl ZeroDivisionError
         else
           (let global_step = get_global_step g;
                batches_per_epoch = of_int NUM_TRAIN_IMAGES / of_int (train_batch_size FLAGS);
                current_epoch = of_int global_step / batches_per_epoch;
                learning_rate = learning_rate_schedule FLAGS current_epoch;
                optimizer = TowerOptimizer (MomentumOptimizer learning_rate MOMENTUM True)
            in Inr (Some (Group (Minimize optimizer loss global_step) (update_ops g)))))
      else Inr None)"

definition resnet_model_fn ::
  "graph \<Rightarrow> flags \<Rightarrow> features \<Rightarrow> tensor \<Rightarrow> string \<Rightarrow> (string \<rightharpoonup> int) \<Rightarrow> py_error + estimator_spec" where
  "resnet_model_fn g FLAGS features labels mode params =
     (case (case features of
              Dict d \<Rightarrow> (case d ''feature'' of
                           None \<Rightarrow> Inl (KeyError ''feature'')
                         | Some t \<Rightarrow> Inr t)
            | Tensor t \<Rightarrow> Inr t) of
        Inl e \<Rightarrow> Inl e
      | Inr features1 \<Rightarrow>
         (let features2 = (if data_format FLAGS = ''channels_first''
                           then Transpose features1 [0, 3, 1, 2] else features1);
              logits = Cast (Network (resnet_depth FLAGS) LABEL_CLASSES (data_format FLAGS)
                               features2 (mode = TRAIN)) float32;
              predictions = [''classes'' \<mapsto> ArgMax logits 1,
                             ''probabilities'' \<mapsto> Softmax logits]
          in if mode = PREDICT then
               Inr \<lparr>spec_mode = mode, spec_predictions = predictions,
                    spec_export_outputs = Some [''classify'' \<mapsto> predictions],
                    spec_loss = None, spec_train_op = None, spec_eval_metric_ops = None\<rparr>
             else
               (case params ''batch_size'' of
                  None \<Rightarrow> Inl (KeyError ''batch_size'')
                | Some batch_size \<Rightarrow>
                   (let one_hot_labels = OneHot labels LABEL_CLASSES;
                        cross_entropy = softmax_cross_entropy g logits one_hot_labels
                    in case weight_decay_term (trainable_variables g) of
                         Inl e \<Rightarrow> Inl e
                       | Inr penalty \<Rightarrow>
                          (let loss = cross_entropy + penalty
                           in case make_train_op g FLAGS mode loss of
                                Inl e \<Rightarrow> Inl e
                              | Inr train_op \<Rightarrow>
                                 (let accuracy = Accuracy (ArgMax one_hot_labels 1)
                                                   (ArgMax logits 1)
                                  in Inr \<lparr>spec_mode = mode, spec_predictions = predictions,
                                          spec_export_outputs = None,
                                          spec_loss = Some loss, spec_train_op = train_op,
                                          spec_eval_metric_ops =
                                            Some [''accuracy'' \<mapsto> accuracy]\<rparr>))))))"

section \<open>Rendering: \<^verbatim>\<open>str\<close>, \<^verbatim>\<open>'{0:.2f}'.format\<close> and \<^verbatim>\<open>csv.writer\<close>\<close>

fun str_nat :: "nat \<Rightarrow> string" where
  "str_nat n =
     (if n < 10 then [''0123456789'' ! n]
      else str_nat (n div 10) @ [''0123456789'' ! (n mod 10)])"

declare str_nat.simps [simp del]

definition str_int :: "int \<Rightarrow> string" where
  "str_int i = (if i < 0 then ''-'' @ str_nat (nat (- i)) else str_nat (nat i))"

text \<open>Rounding to the nearest integer, a tie going to the even neighbour.\<close>

definition round_half_even :: "real \<Rightarrow> int" where
  "round_half_even x =
     (let f = \<lfloor>x\<rfloor>; d = x - of_int f
      in if d < 1 / 2 then f
         else if 1 / 2 < d then f + 1
         else if even f then f else f + 1)"

text \<open>
  \<^verbatim>\<open>'{0:.2f}'.format(x)\<close>: the sign, the integer part, a point and exactly two
  decimals of \<open>x\<close> rounded to hundredths.
\<close>

definition format_2f :: "real \<Rightarrow> string" where
  "format_2f x =
     (let n = nat (round_half_even (\<bar>x\<bar> * 100))
      in (if x < 0 then ''-'' else []) @ str_nat (n div 100) @ ''.''
           @ [''0123456789'' ! (n mod 100 div 10), ''0123456789'' ! (n mod 10)])"

text \<open>\<^verbatim>\<open>int(x)\<close> of a float truncates towards zero.\<close>

definition int_of_float :: "real \<Rightarrow> int" where
  "int_of_float x = (if 0 \<le> x then \<lfloor>x\<rfloor> else \<lceil>x\<rceil>)"

text \<open>A cell of a result row: the driver appends an int, a float and two strings.\<close>

datatype cell = IntCell int | FloatCell real | StrCell string

definition TAB :: char where
  "TAB = CHR 0x09"

definition CR :: char where
  "CR = CHR 0x0D"

definition LF :: char where
  "LF = CHR 0x0A"

definition QUOTE :: char where
  "QUOTE = CHR 0x22"

text \<open>
  \<^verbatim>\<open>csv.writer(tsv_file, delimiter='\t')\<close>: minimal quoting (a field holding the
  delimiter, the quote character or a line break is quoted, its quotes doubled), fields
  joined by the delimiter, each row ended by CR LF. How a float is printed
  (\<^verbatim>\<open>repr\<close>) is the language's, and a parameter here.
\<close>

definition csv_field :: "string \<Rightarrow> string" where
  "csv_field s =
     (if \<exists>c \<in> set s. c = TAB \<or> c = QUOTE \<or> c = CR \<or> c = LF
      then [QUOTE] @ concat (map (\<lambda>c. if c = QUOTE then [QUOTE, QUOTE] else [c]) s) @ [QUOTE]
      else s)"

definition render_cell :: "(real \<Rightarrow> string) \<Rightarrow> cell \<Rightarrow> string" where
  "render_cell float_repr c =
     (case c of IntCell i \<Rightarrow> str_int i | FloatCell x \<Rightarrow> float_repr x | StrCell s \<Rightarrow> s)"

fun join_tab :: "string list \<Rightarrow> string" where
  "join_tab [] = []"
| "join_tab [f] = f"
| "join_tab (f # g # fs) = f @ [TAB] @ join_tab (g # fs)"

definition writerow :: "(real \<Rightarrow> string) \<Rightarrow> cell list \<Rightarrow> string" where
  "writerow float_repr row =
     join_tab (map (\<lambda>c. csv_field (render_cell float_repr c)) row) @ [CR, LF]"

definition writerows :: "(real \<Rightarrow> string) \<Rightarrow> cell list list \<Rightarrow> string" where
  "writerows float_repr rows = concat (map (writerow float_repr) rows)"

definition HEADER :: "cell list" where
  "HEADER = [StrCell ''epoch'', StrCell ''hours'', StrCell ''top1Accuracy'',
             StrCell ''top5Accuracy'']"

section \<open>The driver\<close>

text \<open>
  The world the driver acts on: the global step persisted in the checkpoint directory,
  the files, the calls made to the training runtime and to the file system (in order),
  and how many times the clock was read.
\<close>

datatype call = Train int | Evaluate int | WriteFile string

record world =
  persisted_step :: int
  files :: "string \<rightharpoonup> string"
  calls :: "call list"
  clock :: nat

text \<open>
  The collaborators: \<^verbatim>\<open>Estimator.train(max_steps=n)\<close> as the persisted step it leaves
  given the one it found; \<^verbatim>\<open>Estimator.evaluate(steps=n)\<close> as the metrics it returns at
  a persisted step; \<^verbatim>\<open>time.time()\<close> as its successive readings; \<^verbatim>\<open>repr\<close> of a
  float. Both estimator calls block until they return. Logging is left out.
\<close>

record runtime =
  rt_train :: "int \<Rightarrow> int \<Rightarrow> int"
  rt_evaluate :: "int \<Rightarrow> int \<Rightarrow> (string \<rightharpoonup> real)"
  rt_time :: "nat \<Rightarrow> real"
  rt_float_repr :: "real \<Rightarrow> string"

definition now :: "runtime \<Rightarrow> world \<Rightarrow> real \<times> world" where
  "now rt w = (rt_time rt (clock w), w\<lparr>clock := Suc (clock w)\<rparr>)"

text \<open>\<^verbatim>\<open>current_epoch = current_step // FLAGS.train_batch_size\<close>\<close>

definition derive_epoch :: "flags \<Rightarrow> int \<Rightarrow> py_error + int" where
  "derive_epoch FLAGS current_step =
     (if train_batch_size FLAGS = 0 then Inl ZeroDivisionError
      else Inr (current_step div train_batch_size FLAGS))"

text \<open>\<^verbatim>\<open>batches_per_epoch = NUM_TRAIN_IMAGES // FLAGS.train_batch_size\<close>\<close>

definition batches_per_epoch :: "flags \<Rightarrow> int" where
  "batches_per_epoch FLAGS = NUM_TRAIN_IMAGES div train_batch_size FLAGS"

text \<open>\<^verbatim>\<open>next_checkpoint = (current_epoch + 1) * batches_per_epoch\<close>\<close>

definition next_checkpoint :: "int \<Rightarrow> int \<Rightarrow> int" where
  "next_checkpoint bpe current_epoch = (current_epoch + 1) * bpe"

text \<open>
  One round of the \<^verbatim>\<open>while\<close> loop, from \<^verbatim>\<open>next_checkpoint = ...\<close> to
  \<^verbatim>\<open>results.append(...)\<close>: the new row and the world after it, or the error and the
  world it was raised in.
\<close>

definition epoch_body ::
  "runtime \<Rightarrow> flags \<Rightarrow> real \<Rightarrow> int \<Rightarrow> int \<Rightarrow> world \<Rightarrow> (py_error \<times> world) + (cell list \<times> world)" where
  "epoch_body rt FLAGS start_timestamp bpe current_epoch w =
     (let target = next_checkpoint bpe current_epoch;
          w1 = w\<lparr>persisted_step := rt_train rt (persisted_step w) target,
                 calls := calls w @ [Train target]\<rparr>;
          current_epoch' = current_epoch + 1;
          (t1, w2) = now rt w1;
          (t2, w3) = now rt w2
      in if eval_batch_size FLAGS = 0 then Inl (ZeroDivisionError, w3)
         else
           (let steps = NUM_EVAL_IMAGES div eval_batch_size FLAGS;
                eval_results = rt_evaluate rt (persisted_step w3) steps;
                w4 = w3\<lparr>calls := calls w3 @ [Evaluate steps]\<rparr>;
                (t3, w5) = now rt w4;
                elapsed_time = int_of_float (t3 - start_timestamp)
            in case eval_results ''accuracy'' of
                 None \<Rightarrow> Inl (KeyError ''accuracy'', w5)
               | Some accuracy \<Rightarrow>
                   Inr ([IntCell current_epoch',
                         FloatCell (of_int elapsed_time / 3600),
                         StrCell (format_2f (accuracy * 100)),
                         StrCell (format_2f (accuracy * 100))], w5)))"

text \<open>\<^verbatim>\<open>while current_epoch < 100: ...\<close>\<close>

function main_loop ::
  "runtime \<Rightarrow> flags \<Rightarrow> real \<Rightarrow> int \<Rightarrow> int \<Rightarrow> cell list list \<Rightarrow> world
     \<Rightarrow> (py_error \<times> world) + (cell list list \<times> world)" where
  "main_loop rt FLAGS start_timestamp bpe current_epoch results w =
     (if current_epoch < 100 then
        (case epoch_body rt FLAGS start_timestamp bpe current_epoch w of
           Inl err \<Rightarrow> Inl err
         | Inr (row, w') \<Rightarrow>
             main_loop rt FLAGS start_timestamp bpe (current_epoch + 1) (results @ [row]) w')
      else Inr (results, w))"
  by pat_completeness auto
termination
  by (relation "measure (\<lambda>(rt, FLAGS, start_timestamp, bpe, current_epoch, results, w).
                  nat (100 - current_epoch))") auto

declare main_loop.simps [simp del]

text \<open>
  \<^verbatim>\<open>main\<close>. The gRPC URL the first block computes is not used after it; the estimator
  and the input pipelines are built by the framework. \<^verbatim>\<open>FLAGS.model_dir + '/...'\<close>
  raises TypeError when the flag is unset. The file is opened for writing (not
  appending), so what the path held before is replaced.
\<close>

definition main :: "runtime \<Rightarrow> flags \<Rightarrow> world \<Rightarrow> py_error option \<times> world" where
  "main rt FLAGS w =
     (if use_tpu FLAGS \<and> master FLAGS = None \<and> tpu_name FLAGS = None then
        (Some (RuntimeError ''You must specify either --master or --tpu_name.''), w)
      else
        (let current_step = persisted_step w;
             (start_timestamp, w0) = now rt w
         in case derive_epoch FLAGS current_step of
              Inl e \<Rightarrow> (Some e, w0)
            | Inr current_epoch \<Rightarrow>
               (case main_loop rt FLAGS start_timestamp (batches_per_epoch FLAGS)
                       current_epoch [] w0 of
                  Inl (e, w') \<Rightarrow> (Some e, w')
                | Inr (results, w1) \<Rightarrow>
                   (case model_dir FLAGS of
                      None \<Rightarrow> (Some TypeError, w1)
                    | Some dir \<Rightarrow>
                       (let path = dir @ ''/epoch_results.tsv'';
                            content = writerow (rt_float_repr rt) HEADER
                                        @ writerows (rt_float_repr rt) results
                        in (None, w1\<lparr>files := (files w1)(path \<mapsto> content),
                                      calls := calls w1 @ [WriteFile path]\<rparr>))))))"

section \<open>Traces, report rows and example inputs\<close>

text \<open>The two collaborator calls of one round of the loop, for epoch counter \<open>k\<close>.\<close>

definition epoch_calls :: "flags \<Rightarrow> int \<Rightarrow> int \<Rightarrow> call list" where
  "epoch_calls FLAGS bpe k =
     [Train (next_checkpoint bpe k), Evaluate (NUM_EVAL_IMAGES div eval_batch_size FLAGS)]"

text \<open>The world a run of the loop ends in, whether it raised or not.\<close>

fun outcome_world :: "(py_error \<times> world) + ('a \<times> world) \<Rightarrow> world" where
  "outcome_world (Inl (e, w)) = w"
| "outcome_world (Inr (r, w)) = w"

text \<open>
  A row of the report for epoch \<open>k\<close>: the epoch, some number of hours, and twice the
  accuracy of one evaluation, times 100, printed with two decimals.
\<close>

definition report_row :: "runtime \<Rightarrow> flags \<Rightarrow> int \<Rightarrow> cell list \<Rightarrow> bool" where
  "report_row rt FLAGS k row =
     (\<exists>hours gs a.
        rt_evaluate rt gs (NUM_EVAL_IMAGES div eval_batch_size FLAGS) ''accuracy'' = Some a
        \<and> row = [IntCell k, FloatCell hours,
                 StrCell (format_2f (a * 100)), StrCell (format_2f (a * 100))])"

definition REPORT_PATH :: "string \<Rightarrow> string" where
  "REPORT_PATH dir = dir @ ''/epoch_results.tsv''"

text \<open>The bytes of the header row.\<close>

definition HEADER_LINE :: string where
  "HEADER_LINE = ''epoch'' @ [TAB] @ ''hours'' @ [TAB] @ ''top1Accuracy'' @ [TAB]
                   @ ''top5Accuracy'' @ [CR, LF]"

text \<open>The flags at their declared defaults.\<close>

definition DEFAULT_FLAGS :: flags where
  "DEFAULT_FLAGS = \<lparr>use_tpu = True, gcp_project = None, tpu_zone = None, tpu_name = None,
     master = None, data_dir = None, model_dir = None, resnet_depth = 50,
     train_batch_size = 1024, eval_batch_size = 1024, num_parallel_calls = 8,
     data_format = ''channels_last''\<rparr>"

text \<open>The defaults with a TPU name and a model directory; and a run without TPU.\<close>

definition EXAMPLE_FLAGS :: flags where
  "EXAMPLE_FLAGS = DEFAULT_FLAGS\<lparr>tpu_name := Some ''demo-tpu'', model_dir := Some ''/tmp/resnet''\<rparr>"

definition LOCAL_FLAGS :: flags where
  "LOCAL_FLAGS = DEFAULT_FLAGS\<lparr>use_tpu := False, model_dir := Some ''/tmp/resnet''\<rparr>"

text \<open>
  An example runtime. Training with \<^verbatim>\<open>max_steps\<close> runs until the global step has
  reached that count, and does nothing when it already has; every evaluation reports the
  accuracy 0.7123; the clock advances half an hour per reading; floats are printed with
  two decimals.
\<close>

definition train_until :: "int \<Rightarrow> int \<Rightarrow> int" where
  "train_until current_step max_steps = max current_step max_steps"

definition example_evaluate :: "int \<Rightarrow> int \<Rightarrow> (string \<rightharpoonup> real)" where
  "example_evaluate current_step steps =
     [''accuracy'' \<mapsto> 7123 / 10000, ''global_step'' \<mapsto> of_int current_step]"

definition example_time :: "nat \<Rightarrow> real" where
  "example_time n = 1800 * of_nat n"

definition EXAMPLE_RUNTIME :: runtime where
  "EXAMPLE_RUNTIME = \<lparr>rt_train = train_until, rt_evaluate = example_evaluate,
     rt_time = example_time, rt_float_repr = format_2f\<rparr>"

text \<open>A fresh model directory, and one left by a run that went through all its epochs.\<close>

definition EXAMPLE_WORLD :: world where
  "EXAMPLE_WORLD = \<lparr>persisted_step = 0, files = Map.empty, calls = [], clock = 0\<rparr>"

definition FINISHED_WORLD :: world where
  "FINISHED_WORLD = \<lparr>persisted_step = 125100,
     files = [''/tmp/resnet/epoch_results.tsv'' \<mapsto> ''rows of the earlier run''],
     calls = [], clock = 0\<rparr>"

text \<open>A graph with one convolution kernel and one batch normalization scale.\<close>

definition EXAMPLE_VARIABLES :: "variable list" where
  "EXAMPLE_VARIABLES =
     [\<lparr>var_name = ''cg/conv2d/kernel:0'', var_value = [1]\<rparr>,
      \<lparr>var_name = ''cg/batch_normalization/gamma:0'', var_value = [1]\<rparr>]"

definition example_cross_entropy :: "tensor \<Rightarrow> tensor \<Rightarrow> real" where
  "example_cross_entropy logits onehot_labels = 69 / 10"

definition EXAMPLE_GRAPH :: graph where
  "EXAMPLE_GRAPH = \<lparr>trainable_variables = EXAMPLE_VARIABLES, get_global_step = 0,
     softmax_cross_entropy = example_cross_entropy, update_ops = []\<rparr>"

text \<open>
  The L2 norm of a value, and the weight decay term as the specification words it:
  WEIGHT_DECAY times the sum of the L2 norms of the variables that weight decay applies
  to. It is compared below with \<open>weight_decay_term\<close>, the term the program computes.
\<close>

definition l2_norm :: "real list \<Rightarrow> real" where
  "l2_norm t = sqrt (sum_list (map (\<lambda>x. x * x) t))"

definition weight_decay_of_l2_norms :: "variable list \<Rightarrow> real" where
  "weight_decay_of_l2_norms vs =
     WEIGHT_DECAY * sum_list (map (\<lambda>v. l2_norm (var_value v)) (decayed_variables vs))"

section \<open>The driver: one round and the whole loop\<close>

lemma epoch_body_Inr:
  assumes "epoch_body rt FLAGS st bpe e w = Inr (row, w')"
  shows "calls w' = calls w @ epoch_calls FLAGS bpe e"
    and "files w' = files w"
    and "clock w' = clock w + 3"
    and "persisted_step w' = rt_train rt (persisted_step w) (next_checkpoint bpe e)"
    and "\<exists>a. rt_evaluate rt (persisted_step w') (NUM_EVAL_IMAGES div eval_batch_size FLAGS)
               ''accuracy'' = Some a
          \<and> row = [IntCell (e + 1),
                   FloatCell (of_int (int_of_float (rt_time rt (clock w + 2) - st)) / 3600),
                   StrCell (format_2f (a * 100)), StrCell (format_2f (a * 100))]"
  using assms
  by (auto simp: epoch_body_def now_def Let_def epoch_calls_def split: if_splits option.splits)

lemma epoch_body_Inl:
  assumes "epoch_body rt FLAGS st bpe e w = Inl (err, w')"
  shows "files w' = files w"
    and "calls w' = calls w @ [Train (next_checkpoint bpe e)]
         \<or> calls w' = calls w @ epoch_calls FLAGS bpe e"
  using assms
  by (auto simp: epoch_body_def now_def Let_def epoch_calls_def split: if_splits option.splits)

lemma epoch_body_succeeds:
  assumes "eval_batch_size FLAGS \<noteq> 0"
      and "\<forall>gs. rt_evaluate rt gs (NUM_EVAL_IMAGES div eval_batch_size FLAGS) ''accuracy'' \<noteq> None"
  shows "\<exists>row w'. epoch_body rt FLAGS st bpe e w = Inr (row, w')"
  using assms
  by (auto simp: epoch_body_def now_def Let_def split: if_splits option.splits)

lemma epoch_body_error_kind:
  "epoch_body rt FLAGS st bpe e w = Inl (err, w') \<Longrightarrow>
     err = ZeroDivisionError \<or> err = KeyError ''accuracy''"
  by (auto simp: epoch_body_def now_def Let_def split: if_splits option.splits)

lemma main_loop_done:
  "100 \<le> e \<Longrightarrow> main_loop rt FLAGS st bpe e rs w = Inr (rs, w)"
  by (simp add: main_loop.simps)

lemma main_loop_step:
  "e < 100 \<Longrightarrow> epoch_body rt FLAGS st bpe e w = Inr (row, w1) \<Longrightarrow>
     main_loop rt FLAGS st bpe e rs w = main_loop rt FLAGS st bpe (e + 1) (rs @ [row]) w1"
  by (subst main_loop.simps) simp

lemma main_loop_fail:
  "e < 100 \<Longrightarrow> epoch_body rt FLAGS st bpe e w = Inl err \<Longrightarrow>
     main_loop rt FLAGS st bpe e rs w = Inl err"
  by (subst main_loop.simps) simp

text \<open>
  A loop that returns has run one round for every epoch counter from the one it started
  at to 99: it added one row per round, made the two calls of each round in order, and
  left the files alone.
\<close>

lemma main_loop_Inr:
  "main_loop rt FLAGS st bpe e rs w = Inr (rs', w') \<Longrightarrow>
     \<exists>rows. rs' = rs @ rows \<and> length rows = nat (100 - e)
       \<and> calls w' = calls w @ concat (map (epoch_calls FLAGS bpe) [e..99])
       \<and> files w' = files w
       \<and> (\<forall>i<length rows. report_row rt FLAGS (e + 1 + int i) (rows ! i))"
proof (induction rt FLAGS st bpe e rs w rule: main_loop.induct)
  case (1 rt FLAGS st bpe e rs w)
  show ?case
  proof (cases "e < 100")
    case False
    with "1.prems" show ?thesis by (simp add: main_loop.simps)
  next
    case True
    show ?thesis
    proof (cases "epoch_body rt FLAGS st bpe e w")
      case (Inl err)
      with True "1.prems" show ?thesis by (simp add: main_loop_fail)
    next
      case (Inr p)
      obtain row w1 where p: "p = (row, w1)" by (cases p)
      have body: "epoch_body rt FLAGS st bpe e w = Inr (row, w1)" using Inr p by simp
      have rec: "main_loop rt FLAGS st bpe (e + 1) (rs @ [row]) w1 = Inr (rs', w')"
        using "1.prems" main_loop_step [OF True body] by simp
      from "1.IH" [OF True body refl rec]
      obtain rows where rows: "rs' = (rs @ [row]) @ rows" "length rows = nat (100 - (e + 1))"
        "calls w' = calls w1 @ concat (map (epoch_calls FLAGS bpe) [e + 1..99])"
        "files w' = files w1"
        "\<forall>i<length rows. report_row rt FLAGS (e + 1 + 1 + int i) (rows ! i)"
        by blast
      have r0: "report_row rt FLAGS (e + 1) row"
        using epoch_body_Inr(5) [OF body] unfolding report_row_def by blast
      have upto: "[e..99] = e # [e + 1..99]" using True by (simp add: upto_rec1)
      have "rs' = rs @ (row # rows)" using rows(1) by simp
      moreover have "length (row # rows) = nat (100 - e)" using rows(2) True by simp
      moreover have "calls w' = calls w @ concat (map (epoch_calls FLAGS bpe) [e..99])"
        using rows(3) epoch_body_Inr(1) [OF body] upto by simp
      moreover have "files w' = files w" using rows(4) epoch_body_Inr(2) [OF body] by simp
      moreover have "\<forall>i<length (row # rows). report_row rt FLAGS (e + 1 + int i) ((row # rows) ! i)"
      proof (intro allI impI)
        fix i assume "i < length (row # rows)"
        then show "report_row rt FLAGS (e + 1 + int i) ((row # rows) ! i)"
        proof (cases i)
          case 0 then show ?thesis using r0 by simp
        next
          case (Suc j)
          with \<open>i < length (row # rows)\<close> have "j < length rows" by simp
          with rows(5) have "report_row rt FLAGS (e + 1 + 1 + int j) (rows ! j)" by blast
          then show ?thesis using Suc by (simp add: add.assoc)
        qed
      qed
      ultimately show ?thesis by blast
    qed
  qed
qed

text \<open>
  The loop always ends (the function is total); it returns, rather than raises, whenever
  the evaluation batch size is not 0 and every evaluation reports an accuracy.
\<close>

lemma main_loop_succeeds:
  "eval_batch_size FLAGS \<noteq> 0 \<Longrightarrow>
   \<forall>gs. rt_evaluate rt gs (NUM_EVAL_IMAGES div eval_batch_size FLAGS) ''accuracy'' \<noteq> None \<Longrightarrow>
   \<exists>rs' w'. main_loop rt FLAGS st bpe e rs w = Inr (rs', w')"
proof (induction rt FLAGS st bpe e rs w rule: main_loop.induct)
  case (1 rt FLAGS st bpe e rs w)
  show ?case
  proof (cases "e < 100")
    case False
    then show ?thesis by (simp add: main_loop.simps)
  next
    case True
    obtain row w1 where body: "epoch_body rt FLAGS st bpe e w = Inr (row, w1)"
      using epoch_body_succeeds [OF "1.prems"] by blast
    from "1.IH" [OF True body refl "1.prems"] show ?thesis
      using main_loop_step [OF True body] by simp
  qed
qed

text \<open>
  Whatever the outcome, the loop only adds calls; each evaluation it asks for has the
  same number of steps; it writes no file; and its first call, when it runs at all,
  trains to the target of the epoch counter it started at.
\<close>

lemma main_loop_any:
  "\<exists>new. calls (outcome_world (main_loop rt FLAGS st bpe e rs w)) = calls w @ new
     \<and> (\<forall>n. Evaluate n \<in> set new \<longrightarrow> n = NUM_EVAL_IMAGES div eval_batch_size FLAGS)
     \<and> (\<forall>p. WriteFile p \<notin> set new)
     \<and> (e < 100 \<longrightarrow> take 1 new = [Train (next_checkpoint bpe e)])
     \<and> files (outcome_world (main_loop rt FLAGS st bpe e rs w)) = files w"
proof (induction rt FLAGS st bpe e rs w rule: main_loop.induct)
  case (1 rt FLAGS st bpe e rs w)
  show ?case
  proof (cases "e < 100")
    case False
    then show ?thesis by (simp add: main_loop.simps)
  next
    case True
    show ?thesis
    proof (cases "epoch_body rt FLAGS st bpe e w")
      case (Inl p)
      obtain err w1 where p: "p = (err, w1)" by (cases p)
      have body: "epoch_body rt FLAGS st bpe e w = Inl (err, w1)" using Inl p by simp
      have ml: "main_loop rt FLAGS st bpe e rs w = Inl (err, w1)"
        using main_loop_fail [OF True body] .
      from epoch_body_Inl(2) [OF body] show ?thesis
      proof
        assume c: "calls w1 = calls w @ [Train (next_checkpoint bpe e)]"
        show ?thesis
          by (rule exI [of _ "[Train (next_checkpoint bpe e)]"])
             (simp add: ml c epoch_body_Inl(1) [OF body])
      next
        assume c: "calls w1 = calls w @ epoch_calls FLAGS bpe e"
        show ?thesis
          by (rule exI [of _ "epoch_calls FLAGS bpe e"])
             (simp add: ml c epoch_body_Inl(1) [OF body] epoch_calls_def)
      qed
    next
      case (Inr p)
      obtain row w1 where p: "p = (row, w1)" by (cases p)
      have body: "epoch_body rt FLAGS st bpe e w = Inr (row, w1)" using Inr p by simp
      have ml: "main_loop rt FLAGS st bpe e rs w
                  = main_loop rt FLAGS st bpe (e + 1) (rs @ [row]) w1"
        using main_loop_step [OF True body] .
      from "1.IH" [OF True body refl]
      obtain new where new:
        "calls (outcome_world (main_loop rt FLAGS st bpe (e + 1) (rs @ [row]) w1)) = calls w1 @ new"
        "\<forall>n. Evaluate n \<in> set new \<longrightarrow> n = NUM_EVAL_IMAGES div eval_batch_size FLAGS"
        "\<forall>p. WriteFile p \<notin> set new"
        "files (outcome_world (main_loop rt FLAGS st bpe (e + 1) (rs @ [row]) w1)) = files w1"
        by blast
      show ?thesis
        by (rule exI [of _ "epoch_calls FLAGS bpe e @ new"])
           (use new in \<open>auto simp: ml epoch_body_Inr(1,2) [OF body] epoch_calls_def\<close>)
    qed
  qed
qed

lemma main_loop_error_kind:
  "main_loop rt FLAGS st bpe e rs w = Inl (err, w') \<Longrightarrow>
     err = ZeroDivisionError \<or> err = KeyError ''accuracy''"
proof (induction rt FLAGS st bpe e rs w rule: main_loop.induct)
  case (1 rt FLAGS st bpe e rs w)
  show ?case
  proof (cases "e < 100")
    case False
    with "1.prems" show ?thesis by (simp add: main_loop.simps)
  next
    case True
    show ?thesis
    proof (cases "epoch_body rt FLAGS st bpe e w")
      case (Inl p)
      with True "1.prems" have "epoch_body rt FLAGS st bpe e w = Inl (err, w')"
        by (simp add: main_loop_fail)
      then show ?thesis by (rule epoch_body_error_kind)
    next
      case (Inr p)
      obtain row w1 where p: "p = (row, w1)" by (cases p)
      have body: "epoch_body rt FLAGS st bpe e w = Inr (row, w1)" using Inr p by simp
      show ?thesis
        using "1.IH" [OF True body refl] "1.prems" main_loop_step [OF True body] by simp
    qed
  qed
qed

section \<open>The driver: \<^verbatim>\<open>main\<close>\<close>

lemma writerow_HEADER: "writerow fr HEADER = HEADER_LINE"
  by (simp add: writerow_def HEADER_def HEADER_LINE_def csv_field_def render_cell_def
        TAB_def QUOTE_def CR_def LF_def)

lemma main_config_error:
  "use_tpu FLAGS \<Longrightarrow> master FLAGS = None \<Longrightarrow> tpu_name FLAGS = None \<Longrightarrow>
     main rt FLAGS w = (Some (RuntimeError ''You must specify either --master or --tpu_name.''), w)"
  by (simp add: main_def)

lemma main_unfold:
  assumes "\<not> (use_tpu FLAGS \<and> master FLAGS = None \<and> tpu_name FLAGS = None)"
      and "train_batch_size FLAGS \<noteq> 0"
  shows "main rt FLAGS w =
     (case main_loop rt FLAGS (rt_time rt (clock w)) (batches_per_epoch FLAGS)
             (persisted_step w div train_batch_size FLAGS) [] (w\<lparr>clock := Suc (clock w)\<rparr>) of
        Inl (e, w') \<Rightarrow> (Some e, w')
      | Inr (results, w1) \<Rightarrow>
         (case model_dir FLAGS of
            None \<Rightarrow> (Some TypeError, w1)
          | Some dir \<Rightarrow>
             (None, w1\<lparr>files := (files w1)(REPORT_PATH dir \<mapsto>
                            writerow (rt_float_repr rt) HEADER
                              @ writerows (rt_float_repr rt) results),
                        calls := calls w1 @ [WriteFile (REPORT_PATH dir)]\<rparr>)))"
proof -
  have c: "(use_tpu FLAGS \<and> master FLAGS = None \<and> tpu_name FLAGS = None) = False"
    using assms(1) by blast
  show ?thesis
    unfolding main_def c using assms(2)
    by (simp add: derive_epoch_def now_def Let_def REPORT_PATH_def
          split: sum.splits option.splits prod.splits)
qed

lemma main_zero_batch:
  assumes "\<not> (use_tpu FLAGS \<and> master FLAGS = None \<and> tpu_name FLAGS = None)"
      and "train_batch_size FLAGS = 0"
  shows "main rt FLAGS w = (Some ZeroDivisionError, w\<lparr>clock := Suc (clock w)\<rparr>)"
proof -
  have c: "(use_tpu FLAGS \<and> master FLAGS = None \<and> tpu_name FLAGS = None) = False"
    using assms(1) by blast
  show ?thesis
    unfolding main_def c using assms(2) by (simp add: derive_epoch_def now_def)
qed

lemma main_success:
  assumes cfg: "\<not> (use_tpu FLAGS \<and> master FLAGS = None \<and> tpu_name FLAGS = None)"
      and tbs: "train_batch_size FLAGS \<noteq> 0"
      and ebs: "eval_batch_size FLAGS \<noteq> 0"
      and dir: "model_dir FLAGS = Some dir"
      and acc: "\<forall>gs. rt_evaluate rt gs (NUM_EVAL_IMAGES div eval_batch_size FLAGS) ''accuracy'' \<noteq> None"
  shows "\<exists>rows w'. main rt FLAGS w = (None, w')
      \<and> calls w' = calls w
           @ concat (map (epoch_calls FLAGS (batches_per_epoch FLAGS))
                       [persisted_step w div train_batch_size FLAGS..99])
           @ [WriteFile (REPORT_PATH dir)]
      \<and> files w' = (files w)(REPORT_PATH dir \<mapsto>
                       HEADER_LINE @ writerows (rt_float_repr rt) rows)
      \<and> length rows = nat (100 - persisted_step w div train_batch_size FLAGS)
      \<and> (\<forall>i<length rows.
            report_row rt FLAGS (persisted_step w div train_batch_size FLAGS + 1 + int i) (rows ! i))"
proof -
  let ?w0 = "w\<lparr>clock := Suc (clock w)\<rparr>"
  let ?e0 = "persisted_step w div train_batch_size FLAGS"
  obtain rs w1 where ml:
    "main_loop rt FLAGS (rt_time rt (clock w)) (batches_per_epoch FLAGS) ?e0 [] ?w0 = Inr (rs, w1)"
    using main_loop_succeeds [OF ebs acc] by blast
  from main_loop_Inr [OF ml]
  have props: "length rs = nat (100 - ?e0)"
    "calls w1 = calls w @ concat (map (epoch_calls FLAGS (batches_per_epoch FLAGS)) [?e0..99])"
    "files w1 = files w"
    "\<forall>i<length rs. report_row rt FLAGS (?e0 + 1 + int i) (rs ! i)"
    by auto
  have m: "main rt FLAGS w =
     (None, w1\<lparr>files := (files w1)(REPORT_PATH dir \<mapsto>
                    writerow (rt_float_repr rt) HEADER @ writerows (rt_float_repr rt) rs),
               calls := calls w1 @ [WriteFile (REPORT_PATH dir)]\<rparr>)"
    by (simp add: main_unfold [OF cfg tbs] ml dir)
  show ?thesis
    by (rule exI [of _ rs], rule exI, rule conjI, rule m)
       (use props in \<open>simp add: writerow_HEADER\<close>)
qed

lemma main_any:
  "\<exists>new. calls (snd (main rt FLAGS w)) = calls w @ new
     \<and> (\<forall>n. Evaluate n \<in> set new \<longrightarrow> n = NUM_EVAL_IMAGES div eval_batch_size FLAGS)"
proof (cases "use_tpu FLAGS \<and> master FLAGS = None \<and> tpu_name FLAGS = None")
  case True
  then show ?thesis by (simp add: main_def)
next
  case cfg: False
  show ?thesis
  proof (cases "train_batch_size FLAGS = 0")
    case True
    then show ?thesis using cfg by (simp add: main_zero_batch)
  next
    case tbs: False
    let ?ml = "main_loop rt FLAGS (rt_time rt (clock w)) (batches_per_epoch FLAGS)
             (persisted_step w div train_batch_size FLAGS) [] (w\<lparr>clock := Suc (clock w)\<rparr>)"
    obtain new where new: "calls (outcome_world ?ml) = calls w @ new"
      "\<forall>n. Evaluate n \<in> set new \<longrightarrow> n = NUM_EVAL_IMAGES div eval_batch_size FLAGS"
      using main_loop_any [of rt FLAGS "rt_time rt (clock w)" "batches_per_epoch FLAGS"
          "persisted_step w div train_batch_size FLAGS" "[]" "w\<lparr>clock := Suc (clock w)\<rparr>"]
      by auto
    show ?thesis
    proof (cases ?ml)
      case (Inl p)
      then show ?thesis using new by (cases p) (simp add: main_unfold [OF cfg tbs])
    next
      case (Inr p)
      obtain rs w1 where p: "p = (rs, w1)" by (cases p)
      show ?thesis
      proof (cases "model_dir FLAGS")
        case None
        then show ?thesis using new Inr p by (simp add: main_unfold [OF cfg tbs])
      next
        case (Some dir)
        show ?thesis
          by (rule exI [of _ "new @ [WriteFile (REPORT_PATH dir)]"])
             (use new Inr p Some in \<open>simp add: main_unfold [OF cfg tbs]\<close>)
      qed
    qed
  qed
qed

lemma main_first_call:
  assumes cfg: "\<not> (use_tpu FLAGS \<and> master FLAGS = None \<and> tpu_name FLAGS = None)"
      and tbs: "train_batch_size FLAGS \<noteq> 0"
      and lt: "persisted_step w div train_batch_size FLAGS < 100"
  shows "take 1 (drop (length (calls w)) (calls (snd (main rt FLAGS w))))
           = [Train (next_checkpoint (batches_per_epoch FLAGS)
                       (persisted_step w div train_batch_size FLAGS))]"
proof -
  let ?ml = "main_loop rt FLAGS (rt_time rt (clock w)) (batches_per_epoch FLAGS)
             (persisted_step w div train_batch_size FLAGS) [] (w\<lparr>clock := Suc (clock w)\<rparr>)"
  obtain new where new: "calls (outcome_world ?ml) = calls w @ new"
    "take 1 new = [Train (next_checkpoint (batches_per_epoch FLAGS)
                       (persisted_step w div train_batch_size FLAGS))]"
    using main_loop_any [of rt FLAGS "rt_time rt (clock w)" "batches_per_epoch FLAGS"
        "persisted_step w div train_batch_size FLAGS" "[]" "w\<lparr>clock := Suc (clock w)\<rparr>"] lt
    by auto
  from new(2) have ne: "Suc 0 \<le> length new" by (cases new) auto
  show ?thesis
  proof (cases ?ml)
    case (Inl p)
    then show ?thesis using new by (cases p) (simp add: main_unfold [OF cfg tbs])
  next
    case (Inr p)
    obtain rs w1 where p: "p = (rs, w1)" by (cases p)
    show ?thesis
      using new ne Inr p by (cases "model_dir FLAGS") (simp_all add: main_unfold [OF cfg tbs])
  qed
qed

lemma main_no_runtime_error:
  assumes "\<not> (use_tpu FLAGS \<and> master FLAGS = None \<and> tpu_name FLAGS = None)"
  shows "fst (main rt FLAGS w) \<noteq> Some (RuntimeError msg)"
proof (cases "train_batch_size FLAGS = 0")
  case True
  then show ?thesis using assms by (simp add: main_zero_batch)
next
  case tbs: False
  let ?ml = "main_loop rt FLAGS (rt_time rt (clock w)) (batches_per_epoch FLAGS)
             (persisted_step w div train_batch_size FLAGS) [] (w\<lparr>clock := Suc (clock w)\<rparr>)"
  show ?thesis
  proof (cases ?ml)
    case (Inl p)
    obtain err w1 where p: "p = (err, w1)" by (cases p)
    from main_loop_error_kind [of rt FLAGS _ _ _ _ _ err w1] Inl p
    have "err = ZeroDivisionError \<or> err = KeyError ''accuracy''" by simp
    then show ?thesis using Inl p by (auto simp: main_unfold [OF assms tbs])
  next
    case (Inr p)
    obtain rs w1 where p: "p = (rs, w1)" by (cases p)
    show ?thesis
      using Inr p by (cases "model_dir FLAGS") (simp_all add: main_unfold [OF assms tbs])
  qed
qed

lemma ex_flags [simp]:
  "use_tpu EXAMPLE_FLAGS" "tpu_name EXAMPLE_FLAGS = Some ''demo-tpu''"
  "master EXAMPLE_FLAGS = None"
  "train_batch_size EXAMPLE_FLAGS = 1024" "eval_batch_size EXAMPLE_FLAGS = 1024"
  "model_dir EXAMPLE_FLAGS = Some ''/tmp/resnet''"
  by (simp_all add: EXAMPLE_FLAGS_def DEFAULT_FLAGS_def)

lemma local_flags [simp]:
  "\<not> use_tpu LOCAL_FLAGS" "tpu_name LOCAL_FLAGS = None"
  "master LOCAL_FLAGS = None"
  "train_batch_size LOCAL_FLAGS = 1024" "eval_batch_size LOCAL_FLAGS = 1024"
  "model_dir LOCAL_FLAGS = Some ''/tmp/resnet''"
  by (simp_all add: LOCAL_FLAGS_def DEFAULT_FLAGS_def)

lemma example_runtime_accuracy:
  "rt_evaluate EXAMPLE_RUNTIME gs n ''accuracy'' = Some (7123 / 10000)"
  by (simp add: EXAMPLE_RUNTIME_def example_evaluate_def)

lemma format_7123: "format_2f (7123 / 100) = ''71.23''"
  by (simp add: format_2f_def round_half_even_def str_nat.simps)

section \<open>Resuming from a checkpoint\<close>

lemma uninterrupted_calls:
  "calls (snd (main EXAMPLE_RUNTIME EXAMPLE_FLAGS EXAMPLE_WORLD)) ! 10 = Train 7506"
proof -
  have "\<exists>rows w'. main EXAMPLE_RUNTIME EXAMPLE_FLAGS EXAMPLE_WORLD = (None, w')
      \<and> calls w' = calls EXAMPLE_WORLD
           @ concat (map (epoch_calls EXAMPLE_FLAGS (batches_per_epoch EXAMPLE_FLAGS))
                       [persisted_step EXAMPLE_WORLD div train_batch_size EXAMPLE_FLAGS..99])
           @ [WriteFile (REPORT_PATH ''/tmp/resnet'')]
      \<and> files w' = (files EXAMPLE_WORLD)(REPORT_PATH ''/tmp/resnet'' \<mapsto>
                       HEADER_LINE @ writerows (rt_float_repr EXAMPLE_RUNTIME) rows)
      \<and> length rows = nat (100 - persisted_step EXAMPLE_WORLD div train_batch_size EXAMPLE_FLAGS)
      \<and> (\<forall>i<length rows.
            report_row EXAMPLE_RUNTIME EXAMPLE_FLAGS
              (persisted_step EXAMPLE_WORLD div train_batch_size EXAMPLE_FLAGS + 1 + int i) (rows ! i))"
    by (rule main_success) (simp_all add: example_runtime_accuracy)
  then obtain w' where w': "main EXAMPLE_RUNTIME EXAMPLE_FLAGS EXAMPLE_WORLD = (None, w')"
    "calls w' = calls EXAMPLE_WORLD
           @ concat (map (epoch_calls EXAMPLE_FLAGS (batches_per_epoch EXAMPLE_FLAGS))
                       [persisted_step EXAMPLE_WORLD div train_batch_size EXAMPLE_FLAGS..99])
           @ [WriteFile (REPORT_PATH ''/tmp/resnet'')]"
    by blast
  have u: "[0..99] = 0 # 1 # 2 # 3 # 4 # 5 # [6..99]" by (simp add: upto_rec1)
  have b: "batches_per_epoch EXAMPLE_FLAGS = 1251"
    by (simp add: batches_per_epoch_def NUM_TRAIN_IMAGES_def)
  show ?thesis
    using w' by (simp add: EXAMPLE_WORLD_def u b epoch_calls_def next_checkpoint_def)
qed

lemma fifth_epoch_persists:
  "map_sum fst (\<lambda>p. persisted_step (snd p))
     (epoch_body EXAMPLE_RUNTIME EXAMPLE_FLAGS 0 (batches_per_epoch EXAMPLE_FLAGS) 4
        (EXAMPLE_WORLD\<lparr>persisted_step := 4 * batches_per_epoch EXAMPLE_FLAGS\<rparr>))
     = Inr (5 * batches_per_epoch EXAMPLE_FLAGS)"
  by (simp add: epoch_body_def now_def Let_def EXAMPLE_RUNTIME_def EXAMPLE_WORLD_def
        example_evaluate_def train_until_def next_checkpoint_def batches_per_epoch_def
        NUM_TRAIN_IMAGES_def)

text \<open>
  Claim C1 (resumability). With the default batch size of 1024 an epoch has 1251 steps.
  In a run that starts at step 0, the round of the fifth epoch leaves the persisted step
  at 5 * 1251 = 6255, and the next call of that run trains to 6 * 1251 = 7506. A driver
  restarted at the persisted step 6255 derives the epoch 6255 // 1024 = 6, and its first
  call trains to 7 * 1251 = 8757: the restarted run does not have the target of the
  uninterrupted one.
\<close>

theorem restart_target_differs:
  "batches_per_epoch EXAMPLE_FLAGS = 1251
   \<and> map_sum fst (\<lambda>p. persisted_step (snd p))
        (epoch_body EXAMPLE_RUNTIME EXAMPLE_FLAGS 0 (batches_per_epoch EXAMPLE_FLAGS) 4
           (EXAMPLE_WORLD\<lparr>persisted_step := 4 * batches_per_epoch EXAMPLE_FLAGS\<rparr>))
       = Inr (5 * batches_per_epoch EXAMPLE_FLAGS)
   \<and> calls (snd (main EXAMPLE_RUNTIME EXAMPLE_FLAGS EXAMPLE_WORLD)) ! 10
       = Train ((5 + 1) * batches_per_epoch EXAMPLE_FLAGS)
   \<and> (5 + 1) * batches_per_epoch EXAMPLE_FLAGS = 7506
   \<and> derive_epoch EXAMPLE_FLAGS (5 * batches_per_epoch EXAMPLE_FLAGS) = Inr 6
   \<and> take 1 (drop (length (calls w))
        (calls (snd (main rt EXAMPLE_FLAGS
                       (w\<lparr>persisted_step := 5 * batches_per_epoch EXAMPLE_FLAGS\<rparr>)))))
       = [Train 8757]"
proof -
  have b: "batches_per_epoch EXAMPLE_FLAGS = 1251"
    by (simp add: batches_per_epoch_def NUM_TRAIN_IMAGES_def)
  let ?w = "w\<lparr>persisted_step := 5 * batches_per_epoch EXAMPLE_FLAGS\<rparr>"
  have "take 1 (drop (length (calls ?w)) (calls (snd (main rt EXAMPLE_FLAGS ?w))))
          = [Train (next_checkpoint (batches_per_epoch EXAMPLE_FLAGS)
                       (persisted_step ?w div train_batch_size EXAMPLE_FLAGS))]"
    by (rule main_first_call) (simp_all add: b)
  then have r: "take 1 (drop (length (calls w)) (calls (snd (main rt EXAMPLE_FLAGS ?w))))
          = [Train 8757]"
    by (simp add: b next_checkpoint_def)
  have d: "derive_epoch EXAMPLE_FLAGS (5 * batches_per_epoch EXAMPLE_FLAGS) = Inr 6"
    by (simp add: b derive_epoch_def)
  have u: "calls (snd (main EXAMPLE_RUNTIME EXAMPLE_FLAGS EXAMPLE_WORLD)) ! 10
             = Train ((5 + 1) * batches_per_epoch EXAMPLE_FLAGS)"
    using uninterrupted_calls by (simp add: b)
  have t: "(5 + 1) * batches_per_epoch EXAMPLE_FLAGS = 7506"
    by (simp add: b)
  show ?thesis
    using b fifth_epoch_persists u t d r by blast
qed

text \<open>
  Claim C2 (epoch derivation). At the persisted step 6255 and the default batch size
  the driver derives the epoch 6255 // 1024 = 6, where the step count divided by the
  steps of an epoch, 6255 // 1251, is 5: the driver divides by the batch size.
\<close>

theorem derived_epoch_divides_by_batch_size:
  "derive_epoch EXAMPLE_FLAGS 6255 = Inr 6
   \<and> 6255 div batches_per_epoch EXAMPLE_FLAGS = 5
   \<and> batches_per_epoch EXAMPLE_FLAGS = 1251"
  by (simp add: derive_epoch_def batches_per_epoch_def NUM_TRAIN_IMAGES_def)

section \<open>Properties of the learning rate schedule\<close>








section \<open>Properties of the custom getter\<close>

lemma custom_getter_pass_through:
  "kwargs ''dtype'' = Some d \<Longrightarrow> d \<noteq> DType bfloat16 \<Longrightarrow>
     inner_custom_getter getter args kwargs = Inr (Variable (getter args kwargs))"
  by (simp add: inner_custom_getter_def)

text \<open>
  Claim C4 (variable cast policy). For a request of dtype bfloat16 the getter creates
  the variable as float32 and returns \<^verbatim>\<open>tf.cast(var, tf.float32)\<close>: what it returns
  has dtype float32, not bfloat16.
\<close>

theorem custom_getter_casts_to_float32:
  "inner_custom_getter getter args (kwargs(''dtype'' \<mapsto> DType bfloat16))
     = Inr (CastTo (getter args (kwargs(''dtype'' \<mapsto> DType float32))) float32)
   \<and> map_sum id (value_dtype var_dtype)
        (inner_custom_getter getter args (kwargs(''dtype'' \<mapsto> DType bfloat16))) = Inr float32
   \<and> float32 \<noteq> bfloat16"
  by (simp add: inner_custom_getter_def)

section \<open>Weight decay\<close>

lemma sub_conv: "\<not> sublist ''batch_normalization'' ''cg/conv2d/kernel:0''"
  by (simp add: sublist_Cons_right)

lemma sub_bn: "sublist ''batch_normalization'' ''cg/batch_normalization/gamma:0''"
  by (simp add: sublist_Cons_right)

lemma filter_update_excluded:
  "i < length xs \<Longrightarrow> \<not> P (xs ! i) \<Longrightarrow> \<not> P y \<Longrightarrow> filter P (xs[i := y]) = filter P xs"
proof (induction xs arbitrary: i)
  case Nil
  then show ?case by simp
next
  case (Cons x xs)
  then show ?case by (cases i) auto
qed

lemma sum_filter_update_included:
  fixes f :: "'a \<Rightarrow> real"
  shows "i < length xs \<Longrightarrow> P (xs ! i) \<Longrightarrow> P y \<Longrightarrow>
     sum_list (map f (filter P (xs[i := y]))) = sum_list (map f (filter P xs)) - f (xs ! i) + f y
     \<and> filter P (xs[i := y]) \<noteq> [] \<and> filter P xs \<noteq> []"
proof (induction xs arbitrary: i)
  case Nil
  then show ?case by simp
next
  case (Cons x xs)
  then show ?case by (cases i) auto
qed

lemma weight_decay_term_eq:
  "weight_decay_term vs =
     (if decayed_variables vs = [] then Inl ValueError
      else Inr (WEIGHT_DECAY * sum_list (map (\<lambda>v. l2_loss (var_value v)) (decayed_variables vs))))"
  by (simp add: weight_decay_term_def add_n_def)

lemma weight_decay_normalization_update:
  assumes "i < length vs" and "sublist ''batch_normalization'' (var_name (vs ! i))"
  shows "weight_decay_term (vs[i := (vs ! i)\<lparr>var_value := x\<rparr>]) = weight_decay_term vs"
proof -
  have "decayed_variables (vs[i := (vs ! i)\<lparr>var_value := x\<rparr>]) = decayed_variables vs"
    unfolding decayed_variables_def using assms by (intro filter_update_excluded) simp_all
  then show ?thesis by (simp add: weight_decay_term_eq)
qed

lemma weight_decay_ordinary_update:
  assumes "i < length vs" and "\<not> sublist ''batch_normalization'' (var_name (vs ! i))"
  shows "weight_decay_term (vs[i := (vs ! i)\<lparr>var_value := x\<rparr>]) = weight_decay_term vs
           \<longleftrightarrow> l2_loss x = l2_loss (var_value (vs ! i))"
proof -
  let ?P = "\<lambda>v. \<not> sublist ''batch_normalization'' (var_name v)"
  let ?f = "\<lambda>v. l2_loss (var_value v)"
  let ?y = "(vs ! i)\<lparr>var_value := x\<rparr>"
  have "sum_list (map ?f (filter ?P (vs[i := ?y])))
          = sum_list (map ?f (filter ?P vs)) - ?f (vs ! i) + ?f ?y
        \<and> filter ?P (vs[i := ?y]) \<noteq> [] \<and> filter ?P vs \<noteq> []"
    using assms by (intro sum_filter_update_included) simp_all
  then show ?thesis
    by (auto simp: weight_decay_term_eq decayed_variables_def WEIGHT_DECAY_def)
qed

lemma model_fn_loss:
  "resnet_model_fn g FLAGS features labels mode params = Inr spec \<Longrightarrow> mode \<noteq> PREDICT \<Longrightarrow>
     \<exists>penalty inputs. weight_decay_term (trainable_variables g) = Inr penalty
        \<and> spec_loss spec =
            Some (softmax_cross_entropy g
                    (Cast (Network (resnet_depth FLAGS) LABEL_CLASSES (data_format FLAGS)
                             inputs (mode = TRAIN)) float32)
                    (OneHot labels LABEL_CLASSES) + penalty)"
  unfolding resnet_model_fn_def Let_def
  by (fastforce split: features.splits option.splits sum.splits if_splits)

lemma sum_squares_nonneg: "0 \<le> sum_list (map (\<lambda>x. x * x) (t :: real list))"
  by (induction t) simp_all

lemma l2_loss_l2_norm: "l2_loss t = (l2_norm t)\<^sup>2 / 2"
  by (simp add: l2_loss_def l2_norm_def sum_squares_nonneg)

lemma l2_loss_eq_iff_l2_norm_eq: "l2_loss x = l2_loss y \<longleftrightarrow> l2_norm x = l2_norm y"
  by (simp add: l2_loss_def l2_norm_def)

text \<open>
  Claim C5 (weight decay exclusion), as amended. Outside predict mode the loss is the
  cross entropy plus the weight decay term. That term is WEIGHT_DECAY times the sum of
  \<^verbatim>\<open>tf.nn.l2_loss\<close>, which is half the squared L2 norm and not the L2 norm, of exactly
  those trainable variables that do not belong to a normalization layer (the program
  tells them by \<^verbatim>\<open>batch_normalization\<close> in the variable's name); with no such variable
  \<^verbatim>\<open>tf.add_n\<close> raises a ValueError. Hence the term does not change when only the value
  of a normalization layer's variable changes, and it changes when the value of an
  ordinary variable changes: exactly when that changes the variable's
  \<^verbatim>\<open>l2_loss\<close>, which is exactly when it changes its L2 norm.
\<close>

theorem weight_decay_excludes_batch_normalization:
  "(\<forall>spec. resnet_model_fn g FLAGS features labels mode params = Inr spec \<and> mode \<noteq> PREDICT \<longrightarrow>
      (\<exists>penalty inputs. weight_decay_term (trainable_variables g) = Inr penalty
          \<and> spec_loss spec =
              Some (softmax_cross_entropy g
                      (Cast (Network (resnet_depth FLAGS) LABEL_CLASSES (data_format FLAGS)
                               inputs (mode = TRAIN)) float32)
                      (OneHot labels LABEL_CLASSES) + penalty)))
   \<and> weight_decay_term vs =
       (if decayed_variables vs = [] then Inl ValueError
        else Inr (WEIGHT_DECAY
                    * sum_list (map (\<lambda>v. l2_loss (var_value v)) (decayed_variables vs))))
   \<and> (\<forall>i x. i < length vs \<and> sublist ''batch_normalization'' (var_name (vs ! i)) \<longrightarrow>
         weight_decay_term (vs[i := (vs ! i)\<lparr>var_value := x\<rparr>]) = weight_decay_term vs)
   \<and> (\<forall>i x. i < length vs \<and> \<not> sublist ''batch_normalization'' (var_name (vs ! i)) \<longrightarrow>
         (weight_decay_term (vs[i := (vs ! i)\<lparr>var_value := x\<rparr>]) = weight_decay_term vs
            \<longleftrightarrow> l2_loss x = l2_loss (var_value (vs ! i))))
   \<and> (\<forall>t. l2_loss t = (l2_norm t)\<^sup>2 / 2)
   \<and> (\<forall>x y. l2_loss x = l2_loss y \<longleftrightarrow> l2_norm x = l2_norm y)"
  using model_fn_loss [of g FLAGS features labels mode params]
    weight_decay_term_eq [of vs] weight_decay_normalization_update [of _ vs]
    weight_decay_ordinary_update [of _ vs] l2_loss_l2_norm l2_loss_eq_iff_l2_norm_eq
  by blast

text \<open>
  In the example graph the term is 0.0001 * 0.5; the loss in evaluation mode is the
  cross entropy plus that; setting the batch normalization scale to 5 keeps the term, and
  setting the kernel to 2 changes it.
\<close>

theorem weight_decay_excludes_batch_normalization_witness:
  "weight_decay_term EXAMPLE_VARIABLES = Inr (1 / 20000)
   \<and> map_sum id spec_loss
        (resnet_model_fn EXAMPLE_GRAPH EXAMPLE_FLAGS (Tensor (Input ''images''))
           (Input ''labels'') EVAL [''batch_size'' \<mapsto> 1024])
       = Inr (Some (69 / 10 + 1 / 20000))
   \<and> weight_decay_term (EXAMPLE_VARIABLES[1 := (EXAMPLE_VARIABLES ! 1)\<lparr>var_value := [5]\<rparr>])
       = weight_decay_term EXAMPLE_VARIABLES
   \<and> weight_decay_term (EXAMPLE_VARIABLES[0 := (EXAMPLE_VARIABLES ! 0)\<lparr>var_value := [2]\<rparr>])
       \<noteq> weight_decay_term EXAMPLE_VARIABLES"
proof -
  note t = weight_decay_excludes_batch_normalization
             [of EXAMPLE_GRAPH EXAMPLE_FLAGS "Tensor (Input ''images'')" "Input ''labels''" EVAL
                 "[''batch_size'' \<mapsto> 1024]" EXAMPLE_VARIABLES]
  from t have t1: "weight_decay_term EXAMPLE_VARIABLES =
     (if decayed_variables EXAMPLE_VARIABLES = [] then Inl ValueError
      else Inr (WEIGHT_DECAY * sum_list (map (\<lambda>v. l2_loss (var_value v))
                                  (decayed_variables EXAMPLE_VARIABLES))))"
    and t2: "\<forall>i x. i < length EXAMPLE_VARIABLES
               \<and> sublist ''batch_normalization'' (var_name (EXAMPLE_VARIABLES ! i)) \<longrightarrow>
         weight_decay_term (EXAMPLE_VARIABLES[i := (EXAMPLE_VARIABLES ! i)\<lparr>var_value := x\<rparr>])
           = weight_decay_term EXAMPLE_VARIABLES"
    and t3: "\<forall>i x. i < length EXAMPLE_VARIABLES
               \<and> \<not> sublist ''batch_normalization'' (var_name (EXAMPLE_VARIABLES ! i)) \<longrightarrow>
         (weight_decay_term (EXAMPLE_VARIABLES[i := (EXAMPLE_VARIABLES ! i)\<lparr>var_value := x\<rparr>])
            = weight_decay_term EXAMPLE_VARIABLES
            \<longleftrightarrow> l2_loss x = l2_loss (var_value (EXAMPLE_VARIABLES ! i)))"
    by blast+
  have a: "weight_decay_term EXAMPLE_VARIABLES = Inr (1 / 20000)"
    using t1
    by (simp add: EXAMPLE_VARIABLES_def decayed_variables_def l2_loss_def WEIGHT_DECAY_def
          sub_conv sub_bn)
  have m: "map_sum id spec_loss
        (resnet_model_fn EXAMPLE_GRAPH EXAMPLE_FLAGS (Tensor (Input ''images''))
           (Input ''labels'') EVAL [''batch_size'' \<mapsto> 1024])
       = Inr (Some (69 / 10 + 1 / 20000))"
    using a
    by (simp add: resnet_model_fn_def make_train_op_def TRAIN_def EVAL_def PREDICT_def Let_def
          EXAMPLE_GRAPH_def example_cross_entropy_def)
  have b: "weight_decay_term (EXAMPLE_VARIABLES[1 := (EXAMPLE_VARIABLES ! 1)\<lparr>var_value := [5]\<rparr>])
       = weight_decay_term EXAMPLE_VARIABLES"
    using t2 [rule_format, of 1 "[5]"] by (simp add: EXAMPLE_VARIABLES_def sub_bn)
  have c: "weight_decay_term (EXAMPLE_VARIABLES[0 := (EXAMPLE_VARIABLES ! 0)\<lparr>var_value := [2]\<rparr>])
       \<noteq> weight_decay_term EXAMPLE_VARIABLES"
    using t3 [rule_format, of 0 "[2]"] by (simp add: EXAMPLE_VARIABLES_def l2_loss_def sub_conv)
  show ?thesis using a m b c by blast
qed

text \<open>
  The term is not WEIGHT_DECAY times the sum of the L2 norms: for a kernel of value 1
  (and a batch normalization scale) the program's term is 0.0001 * 0.5, where the L2 norm
  of the kernel is 1 and WEIGHT_DECAY times the sum of the L2 norms is 0.0001.
\<close>

theorem weight_decay_counterexample:
  "weight_decay_term
     [\<lparr>var_name = ''cg/conv2d/kernel:0'', var_value = [1]\<rparr>,
      \<lparr>var_name = ''cg/batch_normalization/gamma:0'', var_value = [1]\<rparr>]
     = Inr (1 / 20000)
   \<and> weight_decay_of_l2_norms
       [\<lparr>var_name = ''cg/conv2d/kernel:0'', var_value = [1]\<rparr>,
        \<lparr>var_name = ''cg/batch_normalization/gamma:0'', var_value = [1]\<rparr>]
     = 1 / 10000
   \<and> weight_decay_term
       [\<lparr>var_name = ''cg/conv2d/kernel:0'', var_value = [1]\<rparr>,
        \<lparr>var_name = ''cg/batch_normalization/gamma:0'', var_value = [1]\<rparr>]
     \<noteq> Inr (weight_decay_of_l2_norms
              [\<lparr>var_name = ''cg/conv2d/kernel:0'', var_value = [1]\<rparr>,
               \<lparr>var_name = ''cg/batch_normalization/gamma:0'', var_value = [1]\<rparr>])"
  by (simp add: weight_decay_term_def weight_decay_of_l2_norms_def decayed_variables_def
        add_n_def l2_loss_def l2_norm_def WEIGHT_DECAY_def sub_conv sub_bn)

section \<open>The mode of the model function\<close>

text \<open>
  Claim C6 (malformed mode), as amended. The model function does not check its mode:
  for every mode other than TRAIN and PREDICT, one outside the valid set included, it
  does what it does for EVAL (the same loss and metrics, no train operation, the same
  errors) and returns the result, which carries the mode it was given.
\<close>

theorem malformed_mode_handled_as_eval:
  "mode \<noteq> TRAIN \<and> mode \<noteq> PREDICT \<longrightarrow>
     resnet_model_fn g FLAGS features labels mode params
       = map_sum id (\<lambda>spec. spec\<lparr>spec_mode := mode\<rparr>)
           (resnet_model_fn g FLAGS features labels EVAL params)"
  by (auto simp: resnet_model_fn_def make_train_op_def TRAIN_def EVAL_def PREDICT_def Let_def
        split: features.splits option.splits sum.splits)

theorem malformed_mode_handled_as_eval_witness:
  "''bogus'' \<noteq> TRAIN \<and> ''bogus'' \<noteq> PREDICT
   \<and> resnet_model_fn EXAMPLE_GRAPH EXAMPLE_FLAGS (Tensor (Input ''images''))
          (Input ''labels'') ''bogus'' [''batch_size'' \<mapsto> 1024]
       = map_sum id (\<lambda>spec. spec\<lparr>spec_mode := ''bogus''\<rparr>)
           (resnet_model_fn EXAMPLE_GRAPH EXAMPLE_FLAGS (Tensor (Input ''images''))
              (Input ''labels'') EVAL [''batch_size'' \<mapsto> 1024])
   \<and> map_sum id spec_train_op
        (resnet_model_fn EXAMPLE_GRAPH EXAMPLE_FLAGS (Tensor (Input ''images''))
           (Input ''labels'') EVAL [''batch_size'' \<mapsto> 1024]) = Inr None"
  using malformed_mode_handled_as_eval [of "''bogus''" EXAMPLE_GRAPH EXAMPLE_FLAGS
      "Tensor (Input ''images'')" "Input ''labels''" "[''batch_size'' \<mapsto> 1024]"]
  by (simp add: resnet_model_fn_def make_train_op_def TRAIN_def EVAL_def PREDICT_def Let_def
        EXAMPLE_GRAPH_def weight_decay_term_def decayed_variables_def add_n_def
        EXAMPLE_VARIABLES_def sub_conv sub_bn)

text \<open>
  With a mode that is none of the three mode keys the model function returns a result.
\<close>

theorem malformed_mode_counterexample:
  "''bogus'' \<notin> {TRAIN, EVAL, PREDICT}
   \<and> map_sum id spec_mode
        (resnet_model_fn EXAMPLE_GRAPH EXAMPLE_FLAGS (Tensor (Input ''images''))
           (Input ''labels'') ''bogus'' [''batch_size'' \<mapsto> 1024])
       = Inr ''bogus''"
  by (simp add: resnet_model_fn_def make_train_op_def TRAIN_def EVAL_def PREDICT_def Let_def
        EXAMPLE_GRAPH_def weight_decay_term_def decayed_variables_def add_n_def
        EXAMPLE_VARIABLES_def sub_conv sub_bn)

section \<open>The report\<close>



section \<open>Evaluation steps\<close>

text \<open>
  Claim C8 (evaluation sample truncation), as amended. Every round of the loop that
  completes makes one evaluation call, of exactly NUM_EVAL_IMAGES // eval_batch_size
  steps, and every evaluation call of a run has that number of steps. With 50000 images
  and an evaluation batch size of 1024 that is 48 batches, which leaves out the remaining
  848 images.
\<close>

theorem evaluation_steps_floor_division:
  "(\<forall>st bpe e w0 row w'. epoch_body rt FLAGS st bpe e w0 = Inr (row, w') \<longrightarrow>
       calls w' = calls w0 @ [Train (next_checkpoint bpe e),
                             Evaluate (NUM_EVAL_IMAGES div eval_batch_size FLAGS)])
   \<and> (\<exists>new. calls (snd (main rt FLAGS w)) = calls w @ new
         \<and> (\<forall>n. Evaluate n \<in> set new \<longrightarrow> n = NUM_EVAL_IMAGES div eval_batch_size FLAGS))
   \<and> (eval_batch_size FLAGS = 1024 \<longrightarrow>
         NUM_EVAL_IMAGES div eval_batch_size FLAGS = 48
         \<and> NUM_EVAL_IMAGES - 48 * eval_batch_size FLAGS = 848)"
  using epoch_body_Inr(1) [of rt FLAGS] main_any [of rt FLAGS w]
  by (auto simp: epoch_calls_def NUM_EVAL_IMAGES_def)

theorem evaluation_steps_floor_division_witness:
  "eval_batch_size EXAMPLE_FLAGS = 1024
   \<and> NUM_EVAL_IMAGES div eval_batch_size EXAMPLE_FLAGS = 48
   \<and> NUM_EVAL_IMAGES - 48 * eval_batch_size EXAMPLE_FLAGS = 848
   \<and> map_sum fst (\<lambda>p. calls (snd p))
        (epoch_body EXAMPLE_RUNTIME EXAMPLE_FLAGS 0 1251 0 EXAMPLE_WORLD)
       = Inr [Train 1251, Evaluate 48]"
proof -
  have b: "epoch_body EXAMPLE_RUNTIME EXAMPLE_FLAGS 0 1251 0 EXAMPLE_WORLD
             = Inr ([IntCell 1, FloatCell 1, StrCell ''71.23'', StrCell ''71.23''],
                    \<lparr>persisted_step = 1251, files = Map.empty,
                     calls = [Train 1251, Evaluate 48], clock = 3\<rparr>)"
    by (simp add: epoch_body_def now_def Let_def EXAMPLE_RUNTIME_def EXAMPLE_WORLD_def
          example_evaluate_def example_time_def train_until_def next_checkpoint_def
          NUM_EVAL_IMAGES_def int_of_float_def format_7123)
  show ?thesis
    using evaluation_steps_floor_division [of EXAMPLE_RUNTIME EXAMPLE_FLAGS EXAMPLE_WORLD] b
    by simp
qed

text \<open>
  48 batches of 1024 leave out 848 images, not 512.
\<close>

theorem evaluation_steps_counterexample:
  "eval_batch_size DEFAULT_FLAGS = 1024
   \<and> NUM_EVAL_IMAGES div eval_batch_size DEFAULT_FLAGS = 48
   \<and> NUM_EVAL_IMAGES - 48 * eval_batch_size DEFAULT_FLAGS \<noteq> 512"
  by (simp add: DEFAULT_FLAGS_def NUM_EVAL_IMAGES_def)

section \<open>The endpoint check\<close>

text \<open>
  Claim C9 (configuration error), as amended. The driver raises the RuntimeError about
  the missing endpoint exactly when \<^verbatim>\<open>use_tpu\<close> is set and neither
  \<^verbatim>\<open>--master\<close> nor \<^verbatim>\<open>--tpu_name\<close> is given; it then stops at once, before any
  call to the runtime and with the world as it found it. Without \<^verbatim>\<open>use_tpu\<close> the
  check is not made.
\<close>

theorem missing_endpoint_fatal_iff_use_tpu:
  "(fst (main rt FLAGS w) = Some (RuntimeError ''You must specify either --master or --tpu_name.'')
      \<longleftrightarrow> use_tpu FLAGS \<and> master FLAGS = None \<and> tpu_name FLAGS = None)
   \<and> (use_tpu FLAGS \<and> master FLAGS = None \<and> tpu_name FLAGS = None
        \<longrightarrow> snd (main rt FLAGS w) = w)"
  using main_no_runtime_error [of FLAGS rt w] main_config_error [of FLAGS rt w]
  by (cases "use_tpu FLAGS \<and> master FLAGS = None \<and> tpu_name FLAGS = None") auto

theorem missing_endpoint_fatal_iff_use_tpu_witness:
  "use_tpu DEFAULT_FLAGS \<and> master DEFAULT_FLAGS = None \<and> tpu_name DEFAULT_FLAGS = None
   \<and> main EXAMPLE_RUNTIME DEFAULT_FLAGS EXAMPLE_WORLD
       = (Some (RuntimeError ''You must specify either --master or --tpu_name.''), EXAMPLE_WORLD)"
  using missing_endpoint_fatal_iff_use_tpu [of EXAMPLE_RUNTIME DEFAULT_FLAGS EXAMPLE_WORLD]
  by (simp add: DEFAULT_FLAGS_def prod_eq_iff)

text \<open>
  Without \<^verbatim>\<open>use_tpu\<close>, and with neither endpoint flag, the driver trains and
  returns without error.
\<close>

theorem missing_endpoint_counterexample:
  "master LOCAL_FLAGS = None \<and> tpu_name LOCAL_FLAGS = None
   \<and> fst (main EXAMPLE_RUNTIME LOCAL_FLAGS EXAMPLE_WORLD) = None
   \<and> Train 1251 \<in> set (calls (snd (main EXAMPLE_RUNTIME LOCAL_FLAGS EXAMPLE_WORLD)))"
proof -
  have "\<exists>rows w'. main EXAMPLE_RUNTIME LOCAL_FLAGS EXAMPLE_WORLD = (None, w')
      \<and> calls w' = calls EXAMPLE_WORLD
           @ concat (map (epoch_calls LOCAL_FLAGS (batches_per_epoch LOCAL_FLAGS))
                       [persisted_step EXAMPLE_WORLD div train_batch_size LOCAL_FLAGS..99])
           @ [WriteFile (REPORT_PATH ''/tmp/resnet'')]
      \<and> files w' = (files EXAMPLE_WORLD)(REPORT_PATH ''/tmp/resnet'' \<mapsto>
                       HEADER_LINE @ writerows (rt_float_repr EXAMPLE_RUNTIME) rows)
      \<and> length rows = nat (100 - persisted_step EXAMPLE_WORLD div train_batch_size LOCAL_FLAGS)
      \<and> (\<forall>i<length rows.
            report_row EXAMPLE_RUNTIME LOCAL_FLAGS
              (persisted_step EXAMPLE_WORLD div train_batch_size LOCAL_FLAGS + 1 + int i) (rows ! i))"
    by (rule main_success) (simp_all add: example_runtime_accuracy)
  then obtain w' where w': "main EXAMPLE_RUNTIME LOCAL_FLAGS EXAMPLE_WORLD = (None, w')"
    "calls w' = calls EXAMPLE_WORLD
           @ concat (map (epoch_calls LOCAL_FLAGS (batches_per_epoch LOCAL_FLAGS))
                       [persisted_step EXAMPLE_WORLD div train_batch_size LOCAL_FLAGS..99])
           @ [WriteFile (REPORT_PATH ''/tmp/resnet'')]"
    by blast
  have u: "[0..99] = 0 # [1..99]" by (simp add: upto_rec1)
  have b: "batches_per_epoch LOCAL_FLAGS = 1251"
    by (simp add: batches_per_epoch_def NUM_TRAIN_IMAGES_def)
  show ?thesis
    using w' by (simp add: EXAMPLE_WORLD_def u b epoch_calls_def next_checkpoint_def)
qed

section \<open>Restarting a finished run\<close>

text \<open>
  Claim C10 (restart after completion). When the persisted step divided by the training
  batch size is at least 100 at startup, the loop body does not run: the driver makes no
  training and no evaluation call, and its only call writes
  \<^verbatim>\<open>{model_dir}/epoch_results.tsv\<close>, which then holds the header row alone, whatever
  it held before.
\<close>

theorem restart_after_completion_rewrites_header_only:
  assumes "\<not> (use_tpu FLAGS \<and> master FLAGS = None \<and> tpu_name FLAGS = None)"
      and "train_batch_size FLAGS \<noteq> 0"
      and "model_dir FLAGS = Some dir"
      and "100 \<le> persisted_step w div train_batch_size FLAGS"
  shows "main rt FLAGS w =
           (None, w\<lparr>clock := Suc (clock w),
                    files := (files w)(dir @ ''/epoch_results.tsv'' \<mapsto> HEADER_LINE),
                    calls := calls w @ [WriteFile (dir @ ''/epoch_results.tsv'')]\<rparr>)"
  using assms(3,4)
  by (simp add: main_unfold [OF assms(1,2)] main_loop_done writerow_HEADER writerows_def
        REPORT_PATH_def)

theorem restart_after_completion_rewrites_header_only_witness:
  "100 \<le> persisted_step FINISHED_WORLD div train_batch_size EXAMPLE_FLAGS
   \<and> files FINISHED_WORLD ''/tmp/resnet/epoch_results.tsv'' = Some ''rows of the earlier run''
   \<and> main EXAMPLE_RUNTIME EXAMPLE_FLAGS FINISHED_WORLD
       = (None, \<lparr>persisted_step = 125100,
                 files = [''/tmp/resnet/epoch_results.tsv'' \<mapsto> HEADER_LINE],
                 calls = [WriteFile ''/tmp/resnet/epoch_results.tsv''], clock = 1\<rparr>)"
  using restart_after_completion_rewrites_header_only
          [of EXAMPLE_FLAGS "''/tmp/resnet''" FINISHED_WORLD EXAMPLE_RUNTIME]
  by (simp add: FINISHED_WORLD_def)

end
